theory Spec2Isabelle
  imports Main
begin

section \<open>The travel planner chat application (app.py)\<close>

text \<open>
  The application is a Flask program with three routes and one response hook.  Its state
  is the Flask session, a dictionary of which only the key \<open>chat_history\<close> is used; the
  value under that key is the transcript, a list of turns.  The hosted language model is
  an external collaborator: it is a parameter of the model below, a function that either
  returns the reply text or raises.
\<close>

subsection \<open>Data\<close>

text \<open>
  The values that \<open>request.json\<close> yields: what Python's JSON decoder makes of a JSON
  document.  A float is kept as it is written (a mantissa and a binary exponent, an
  infinity or not-a-number); no arithmetic is done on it.  \<open>JObject\<close> holds the items
  of the decoded dictionary, so its keys are distinct.  \<open>JNull\<close> is Python's \<open>None\<close>.
\<close>

datatype pyfloat = Finite int int | Infinity bool | NaN

datatype json_value =
    JNull
  | JBool bool
  | JInt int
  | JFloat pyfloat
  | JString string
  | JArray "json_value list"
  | JObject "(string \<times> json_value) list"

text \<open>
  A stored turn is the dictionary \<open>{"role": ..., "text": ...}\<close>; the message format
  of the model API is the dictionary \<open>{'role': ..., 'parts': [...]}\<close>.  The text of a
  user turn is the message of the request as it came, the text of a model turn is a
  string.
\<close>

record turn =
  turn_role :: string
  turn_text :: json_value

record content =
  content_role :: string
  content_parts :: "json_value list"

type_synonym session = "string \<rightharpoonup> turn list"

text \<open>
  A chat request, as far as \<open>chat\<close> looks at it: \<open>json r\<close> is the outcome of
  \<open>request.json\<close>, which is the decoded body, or an HTTP exception when the request
  does not declare a JSON body (415) or the body does not parse (400).
\<close>

datatype json_failure = Unsupported_media_type | Bad_request

record request =
  json :: "json_failure + json_value"

text \<open>
  The body of a response: a JSON object of strings, a rendered page, or the error page
  that Flask makes of an exception that leaves the view.
\<close>

datatype body = Json "(string \<times> string) list" | Html string | Error_page

record response =
  status :: nat
  body :: body
  headers :: "string \<rightharpoonup> string"

text \<open>
  The model handle.  \<open>m h x\<close> is the outcome of sending the message \<open>x\<close> in a chat
  session started with history \<open>h\<close> and reading the text of the answer:
  \<open>Inr t\<close> is the reply text \<open>t\<close>, \<open>Inl d\<close> is an exception \<open>e\<close> with \<open>str(e) = d\<close>.
  The global \<open>model\<close> of the program is \<open>None\<close> when \<open>GEMINI_API_KEY\<close> is not set.
\<close>

type_synonym generative_model = "content list \<Rightarrow> json_value \<Rightarrow> string + string"

type_synonym gateway_call = "content list \<times> json_value"

record chat_session =
  cs_model :: generative_model
  cs_history :: "content list"

text \<open>
  What one request does: the response, the session afterwards, and the calls made to the
  hosted model (the history of the chat session and the message sent).
\<close>

record outcome =
  out_response :: response
  out_session :: session
  out_calls :: "gateway_call list"

subsection \<open>Constants and library functions\<close>

definition SYSTEM_PROMPT :: string where
  "SYSTEM_PROMPT =
     ''\<newline>'' @
     ''You are an expert AI Travel Planner. Your goal is to help users plan their trips by gathering necessary details and then creating a comprehensive itinerary.\<newline>'' @
     ''\<newline>'' @
     ''**Your Process:**\<newline>'' @
     ''1.  **Greeting & Gathering Info:** Start by greeting the user. If they haven't provided details, ask for:\<newline>'' @
     ''    -   Destination (if not decided, ask for preferences like beach, mountains, city, etc.)\<newline>'' @
     ''    -   Duration of the trip (how many days)\<newline>'' @
     ''    -   Number of travelers (and if there are kids/seniors)\<newline>'' @
     ''    -   Budget (low, medium, high)\<newline>'' @
     ''    -   Interests (food, adventure, history, relaxation, etc.)\<newline>'' @
     ''    *Do not ask all questions at once. Ask 1-2 questions at a time to keep the conversation natural.*\<newline>'' @
     ''\<newline>'' @
     ''2.  **Refinement:** Once you have the basics, suggest a few broad options or confirm their choice. Ask about pacing (relaxed vs. packed) or specific must-see spots.\<newline>'' @
     ''\<newline>'' @
     ''3.  **Itinerary Generation:** When you have sufficient information, generate a day-by-day itinerary.\<newline>'' @
     ''    -   Be specific about places to visit.\<newline>'' @
     ''    -   Suggest times for visits.\<newline>'' @
     ''    -   Include restaurant or food recommendations.\<newline>'' @
     ''    -   Mention estimated costs if possible.\<newline>'' @
     ''\<newline>'' @
     ''4.  **Formatting:** Use Markdown for the itinerary to make it readable (bold headings, bullet points).\<newline>'' @
     ''\<newline>'' @
     ''**Tone:**\<newline>'' @
     ''Friendly, enthusiastic, professional, and helpful.\<newline>''"


definition jsonify :: "(string \<times> string) list \<Rightarrow> response" where
  "jsonify d = \<lparr>status = 200, body = Json d,
     headers = [''Content-Type'' \<mapsto> ''application/json'']\<rparr>"

text \<open>A view returning \<open>(response, code)\<close> sets the status code of the response.\<close>

definition with_status :: "response \<Rightarrow> nat \<Rightarrow> response" where
  "with_status r code = r\<lparr>status := code\<rparr>"

text \<open>
  The template \<open>index.html\<close> is not part of the source; the rendered page is a
  parameter.
\<close>

definition render_template :: "string \<Rightarrow> response" where
  "render_template page = \<lparr>status = 200, body = Html page,
     headers = [''Content-Type'' \<mapsto> ''text/html; charset=utf-8'']\<rparr>"

text \<open>
  What Flask answers when an exception leaves a view: the page of an HTTP exception
  with its status code, and the page of status 500 for any other exception.
\<close>

definition http_exception :: "json_failure \<Rightarrow> response" where
  "http_exception f =
     \<lparr>status = (case f of Unsupported_media_type \<Rightarrow> 415 | Bad_request \<Rightarrow> 400),
      body = Error_page,
      headers = [''Content-Type'' \<mapsto> ''text/html; charset=utf-8'']\<rparr>"

definition internal_server_error :: response where
  "internal_server_error =
     \<lparr>status = 500, body = Error_page,
      headers = [''Content-Type'' \<mapsto> ''text/html; charset=utf-8'']\<rparr>"

text \<open>Python's truth value of a decoded JSON value.\<close>

fun truthy :: "json_value \<Rightarrow> bool" where
  "truthy JNull = False"
| "truthy (JBool b) = b"
| "truthy (JInt i) = (i \<noteq> 0)"
| "truthy (JFloat (Finite m e)) = (m \<noteq> 0)"
| "truthy (JFloat (Infinity s)) = True"
| "truthy (JFloat NaN) = True"
| "truthy (JString s) = (s \<noteq> [])"
| "truthy (JArray xs) = (xs \<noteq> [])"
| "truthy (JObject d) = (d \<noteq> [])"

fun type_name :: "json_value \<Rightarrow> string" where
  "type_name JNull = ''NoneType''"
| "type_name (JBool b) = ''bool''"
| "type_name (JInt i) = ''int''"
| "type_name (JFloat f) = ''float''"
| "type_name (JString s) = ''str''"
| "type_name (JArray xs) = ''list''"
| "type_name (JObject d) = ''dict''"

text \<open>\<open>d.get(k)\<close> on a dictionary: \<open>None\<close> for an absent key.\<close>

definition dict_get :: "(string \<times> json_value) list \<Rightarrow> string \<Rightarrow> json_value" where
  "dict_get d k = (case map_of d k of None \<Rightarrow> JNull | Some v \<Rightarrow> v)"

text \<open>
  \<open>s + v\<close> for a string \<open>s\<close>: the concatenation when \<open>v\<close> is a string, and a
  \<open>TypeError\<close> otherwise, given by its description.
\<close>

definition str_add :: "string \<Rightarrow> json_value \<Rightarrow> string + string" where
  "str_add s v =
     (case v of
        JString t \<Rightarrow> Inr (s @ t)
      | _ \<Rightarrow> Inl (''can only concatenate str (not '' @ [CHR 0x22] @ type_name v @
                 [CHR 0x22] @ '') to str''))"

text \<open>\<open>session.get(key, default)\<close>.\<close>

definition session_get :: "session \<Rightarrow> string \<Rightarrow> turn list \<Rightarrow> turn list" where
  "session_get s k d = (case s k of None \<Rightarrow> d | Some v \<Rightarrow> v)"

text \<open>
  \<open>start_chat\<close> only builds the chat session object; \<open>send_message\<close> is the external
  call, recorded in the list of calls.
\<close>

definition start_chat :: "generative_model \<Rightarrow> content list \<Rightarrow> chat_session" where
  "start_chat m h = \<lparr>cs_model = m, cs_history = h\<rparr>"

definition send_message ::
  "chat_session \<Rightarrow> json_value \<Rightarrow> gateway_call list \<Rightarrow> (string + string) \<times> gateway_call list" where
  "send_message c x calls = (cs_model c (cs_history c) x, calls @ [(cs_history c, x)])"

subsection \<open>The views\<close>

text \<open>\<open>index\<close>: creates the empty transcript when the key is absent.\<close>

definition index :: "string \<Rightarrow> session \<Rightarrow> outcome" where
  "index page session =
     \<lparr>out_response = render_template page,
      out_session = (if session ''chat_history'' = None
                     then session(''chat_history'' \<mapsto> []) else session),
      out_calls = []\<rparr>"

text \<open>The loop body of \<open>chat\<close> that converts a stored turn.\<close>

definition format_message :: "turn \<Rightarrow> content" where
  "format_message msg =
     \<lparr>content_role = (if turn_role msg = ''user'' then ''user'' else ''model''),
      content_parts = [turn_text msg]\<rparr>"

text \<open>
  The message that is sent: on an empty history the system prompt is prepended by string
  concatenation, which raises \<open>TypeError\<close> when the message is not a string.
\<close>

definition final_message :: "turn list \<Rightarrow> json_value \<Rightarrow> string + json_value" where
  "final_message history user_message =
     (if history = []
      then map_sum id JString
             (str_add (SYSTEM_PROMPT @ ''\<newline>\<newline>User: '') user_message)
      else Inr user_message)"

text \<open>
  The part of \<open>chat\<close> after the two guards.  The first \<open>start_chat\<close>, on the empty
  \<open>gemini_history\<close>, builds a session that is never used.  An exception inside the
  \<open>try\<close>, from the concatenation or from the external call, is answered with status
  500 and its description.  The two appends and the assignment to the session happen
  only after the external call has returned.
\<close>

definition chat_exchange :: "generative_model \<Rightarrow> json_value \<Rightarrow> session \<Rightarrow> outcome" where
  "chat_exchange m user_message session =
     (let history = session_get session ''chat_history'' [];
          gemini_history = [];
          chat_session = start_chat m gemini_history;
          formatted_history = map format_message history;
          chat = start_chat m formatted_history
      in case final_message history user_message of
           Inl e \<Rightarrow>
             \<lparr>out_response = with_status (jsonify [(''error'', e)]) 500,
              out_session = session,
              out_calls = []\<rparr>
         | Inr x \<Rightarrow>
             (case send_message chat x [] of
                (Inr ai_response_text, calls) \<Rightarrow>
                  (let history' = history @
                         [\<lparr>turn_role = ''user'', turn_text = user_message\<rparr>,
                          \<lparr>turn_role = ''model'', turn_text = JString ai_response_text\<rparr>]
                   in \<lparr>out_response = jsonify [(''response'', ai_response_text)],
                       out_session = session(''chat_history'' \<mapsto> history'),
                       out_calls = calls\<rparr>)
              | (Inl e, calls) \<Rightarrow>
                  \<lparr>out_response = with_status (jsonify [(''error'', e)]) 500,
                   out_session = session,
                   out_calls = calls\<rparr>))"

text \<open>
  \<open>chat\<close>.  The configuration guard comes first.  Then \<open>request.json.get("message")\<close>
  is evaluated outside the \<open>try\<close>: an HTTP exception of \<open>request.json\<close> is answered
  with its page, and on a body that is not a JSON object \<open>.get\<close> raises
  \<open>AttributeError\<close>, answered with the page of status 500.  \<open>not user_message\<close> holds
  for \<open>None\<close> and for every other value that is not truthy.
\<close>

definition chat :: "generative_model option \<Rightarrow> request \<Rightarrow> session \<Rightarrow> outcome" where
  "chat model request session =
     (case model of
        None \<Rightarrow>
          \<lparr>out_response = with_status (jsonify [(''error'',
               ''API Key is missing. Please configure GEMINI_API_KEY in .env file.'')]) 500,
           out_session = session, out_calls = []\<rparr>
      | Some m \<Rightarrow>
          (case json request of
             Inl f \<Rightarrow>
               \<lparr>out_response = http_exception f, out_session = session, out_calls = []\<rparr>
           | Inr (JObject d) \<Rightarrow>
               (let user_message = dict_get d ''message''
                in if \<not> truthy user_message
                   then \<lparr>out_response =
                           with_status (jsonify [(''error'', ''No message provided'')]) 400,
                         out_session = session, out_calls = []\<rparr>
                   else chat_exchange m user_message session)
           | Inr _ \<Rightarrow>
               \<lparr>out_response = internal_server_error, out_session = session,
                out_calls = []\<rparr>))"

text \<open>\<open>clear_chat\<close>: \<open>session.pop("chat_history", None)\<close>.\<close>

definition clear_chat :: "session \<Rightarrow> outcome" where
  "clear_chat session =
     \<lparr>out_response = jsonify [(''status'', ''success'')],
      out_session = session(''chat_history'' := None),
      out_calls = []\<rparr>"

text \<open>The \<open>after_request\<close> hook.\<close>

definition add_header :: "response \<Rightarrow> response" where
  "add_header r = r\<lparr>headers := (headers r)
     (''Cache-Control'' \<mapsto>
        ''no-store, no-cache, must-revalidate, post-check=0, pre-check=0, max-age=0'',
      ''Pragma'' \<mapsto> ''no-cache'',
      ''Expires'' \<mapsto> ''-1'')\<rparr>"

subsection \<open>The application\<close>

datatype http_request = GET_index | POST_chat request | POST_clear

definition dispatch ::
  "generative_model option \<Rightarrow> string \<Rightarrow> http_request \<Rightarrow> session \<Rightarrow> outcome" where
  "dispatch model page rq session =
     (case rq of
        GET_index \<Rightarrow> index page session
      | POST_chat r \<Rightarrow> chat model r session
      | POST_clear \<Rightarrow> clear_chat session)"

text \<open>
  Flask runs the \<open>after_request\<close> hook on the response of the view, and on the page
  it makes of an exception.
\<close>

definition handle_request ::
  "generative_model option \<Rightarrow> string \<Rightarrow> http_request \<Rightarrow> session \<Rightarrow> outcome" where
  "handle_request model page rq session =
     (let out = dispatch model page rq session
      in out\<lparr>out_response := add_header (out_response out)\<rparr>)"

text \<open>
  A run of the application: the requests of one session in the order they arrive.  The
  hosted model may answer differently from one request to the next, so every request
  comes with the model handle it is served with.
\<close>

type_synonym step = "generative_model option \<times> http_request"

fun serve :: "string \<Rightarrow> session \<Rightarrow> step list \<Rightarrow> outcome list" where
  "serve page s [] = []"
| "serve page s ((model, rq) # steps) =
     handle_request model page rq s #
     serve page (out_session (handle_request model page rq s)) steps"

fun session_after :: "string \<Rightarrow> session \<Rightarrow> step list \<Rightarrow> session" where
  "session_after page s [] = s"
| "session_after page s ((model, rq) # steps) =
     session_after page (out_session (handle_request model page rq s)) steps"

subsection \<open>Notions of the specification\<close>

text \<open>
  The transcript of a session as \<open>chat\<close> loads it: the list under \<open>chat_history\<close>,
  and the empty list when the key is absent.
\<close>

definition transcript :: "session \<Rightarrow> turn list" where
  "transcript s = session_get s ''chat_history'' []"

text \<open>The data model's turns: the role is \<open>user\<close> or \<open>model\<close>.\<close>

definition well_formed :: "turn list \<Rightarrow> bool" where
  "well_formed h = list_all (\<lambda>t. turn_role t = ''user'' \<or> turn_role t = ''model'') h"

text \<open>A stored turn as a role-tagged message: its role and its text.\<close>

definition role_tagged :: "turn \<Rightarrow> content" where
  "role_tagged t = \<lparr>content_role = turn_role t, content_parts = [turn_text t]\<rparr>"

text \<open>
  A successful chat exchange is a chat request answered with status 200.  Its two turns
  are read off the request and the response: the message of the request body and the
  \<open>response\<close> field of the response body.
\<close>

definition successful :: "step \<times> outcome \<Rightarrow> bool" where
  "successful x =
     (case snd (fst x) of
        POST_chat r \<Rightarrow> status (out_response (snd x)) = 200
      | _ \<Rightarrow> False)"

definition request_message :: "http_request \<Rightarrow> json_value" where
  "request_message rq =
     (case rq of
        POST_chat r \<Rightarrow>
          (case json r of Inr (JObject d) \<Rightarrow> dict_get d ''message'' | _ \<Rightarrow> JNull)
      | _ \<Rightarrow> JNull)"

definition reply_text :: "response \<Rightarrow> json_value" where
  "reply_text r =
     (case body r of
        Json d \<Rightarrow> (case map_of d ''response'' of Some t \<Rightarrow> JString t | None \<Rightarrow> JNull)
      | _ \<Rightarrow> JNull)"

definition exchanged :: "step \<times> outcome \<Rightarrow> turn list" where
  "exchanged x =
     (if successful x
      then [\<lparr>turn_role = ''user'', turn_text = request_message (snd (fst x))\<rparr>,
            \<lparr>turn_role = ''model'', turn_text = reply_text (out_response (snd x))\<rparr>]
      else [])"

section \<open>Properties\<close>

subsection \<open>The views, unfolded\<close>

lemma prefixed_neq: "SYSTEM_PROMPT @ ''\<newline>\<newline>User: '' @ msg \<noteq> msg"
proof
  assume "SYSTEM_PROMPT @ ''\<newline>\<newline>User: '' @ msg = msg"
  then have "length (SYSTEM_PROMPT @ ''\<newline>\<newline>User: '' @ msg) = length msg"
    by simp
  then show False by simp
qed

lemma final_message_empty_string:
  "final_message [] (JString s) = Inr (JString (SYSTEM_PROMPT @ ''\<newline>\<newline>User: '' @ s))"
  by (simp add: final_message_def str_add_def)

lemma final_message_empty:
  assumes "final_message [] v = Inr x"
  shows "\<exists>s. v = JString s \<and> x = JString (SYSTEM_PROMPT @ ''\<newline>\<newline>User: '' @ s)"
  using assms by (cases v) (auto simp: final_message_def str_add_def)

lemma final_message_nonempty: "h \<noteq> [] \<Longrightarrow> final_message h v = Inr v"
  by (simp add: final_message_def)

lemma final_message_same:
  assumes "final_message h v = Inr x"
  shows "x = v \<longleftrightarrow> h \<noteq> []"
proof (cases "h = []")
  case True
  with assms final_message_empty [of v x] prefixed_neq show ?thesis by auto
next
  case False
  with assms show ?thesis by (simp add: final_message_nonempty)
qed

lemma chat_exchange_unfold:
  "chat_exchange m user_message session =
     (case final_message (transcript session) user_message of
        Inl e \<Rightarrow>
          \<lparr>out_response = with_status (jsonify [(''error'', e)]) 500,
           out_session = session,
           out_calls = []\<rparr>
      | Inr x \<Rightarrow>
          (case m (map format_message (transcript session)) x of
             Inr t \<Rightarrow>
               \<lparr>out_response = jsonify [(''response'', t)],
                out_session = session(''chat_history'' \<mapsto> transcript session @
                    [\<lparr>turn_role = ''user'', turn_text = user_message\<rparr>,
                     \<lparr>turn_role = ''model'', turn_text = JString t\<rparr>]),
                out_calls = [(map format_message (transcript session), x)]\<rparr>
           | Inl e \<Rightarrow>
               \<lparr>out_response = with_status (jsonify [(''error'', e)]) 500,
                out_session = session,
                out_calls = [(map format_message (transcript session), x)]\<rparr>))"
  by (simp add: chat_exchange_def send_message_def start_chat_def transcript_def Let_def
      split: sum.split)

lemma chat_accepted:
  "json request = Inr (JObject d) \<Longrightarrow> truthy (dict_get d ''message'') \<Longrightarrow>
   chat (Some m) request session = chat_exchange m (dict_get d ''message'') session"
  by (simp add: chat_def)

lemma chat_rejected:
  "json request = Inr (JObject d) \<Longrightarrow> \<not> truthy (dict_get d ''message'') \<Longrightarrow>
   chat (Some m) request session =
     \<lparr>out_response = with_status (jsonify [(''error'', ''No message provided'')]) 400,
      out_session = session, out_calls = []\<rparr>"
  by (simp add: chat_def)

lemma chat_no_json:
  "json request = Inl f \<Longrightarrow>
   chat (Some m) request session =
     \<lparr>out_response = http_exception f, out_session = session, out_calls = []\<rparr>"
  by (simp add: chat_def)

lemma chat_no_object:
  "json request = Inr v \<Longrightarrow> \<forall>d. v \<noteq> JObject d \<Longrightarrow>
   chat (Some m) request session =
     \<lparr>out_response = internal_server_error, out_session = session, out_calls = []\<rparr>"
  by (cases v) (simp_all add: chat_def)

lemma chat_cases:
  obtains
    (unconfigured) "model = None"
  | (no_json) m f where "model = Some m" "json request = Inl f"
  | (no_object) m v where "model = Some m" "json request = Inr v" "\<forall>d. v \<noteq> JObject d"
  | (no_message) m d where "model = Some m" "json request = Inr (JObject d)"
      "\<not> truthy (dict_get d ''message'')"
  | (message) m d where "model = Some m" "json request = Inr (JObject d)"
      "truthy (dict_get d ''message'')"
proof (cases model)
  case None
  then show ?thesis by (rule unconfigured)
next
  case (Some m)
  show ?thesis
  proof (cases "json request")
    case (Inl f)
    with Some show ?thesis by (rule no_json)
  next
    case (Inr v)
    show ?thesis
    proof (cases "\<exists>d. v = JObject d")
      case True
      then obtain d where "v = JObject d" ..
      with Some Inr show ?thesis
        by (cases "truthy (dict_get d ''message'')") (auto intro: no_message message)
    next
      case False
      with Some Inr show ?thesis by (intro no_object [of m v]) simp_all
    qed
  qed
qed

lemma chat_call_cases:
  assumes "(h, x) \<in> set (out_calls (chat model request session))"
  shows "\<exists>m d. model = Some m \<and> json request = Inr (JObject d) \<and>
    truthy (dict_get d ''message'') \<and>
    final_message (transcript session) (dict_get d ''message'') = Inr x \<and>
    h = map format_message (transcript session) \<and>
    out_calls (chat model request session) = [(h, x)]"
proof (cases rule: chat_cases [where model=model and request=request])
  case unconfigured
  with assms show ?thesis by (simp add: chat_def)
next
  case (no_json m f)
  with assms show ?thesis by (simp add: chat_no_json)
next
  case (no_object m v)
  with assms show ?thesis by (simp add: chat_no_object)
next
  case (no_message m d)
  with assms show ?thesis by (simp add: chat_rejected)
next
  case (message m d)
  with assms show ?thesis
    by (auto simp: chat_accepted chat_exchange_unfold split: sum.splits)
qed

lemma handle_request_fields:
  "status (out_response (handle_request model page rq s)) =
     status (out_response (dispatch model page rq s))"
  "body (out_response (handle_request model page rq s)) =
     body (out_response (dispatch model page rq s))"
  "out_session (handle_request model page rq s) = out_session (dispatch model page rq s)"
  "out_calls (handle_request model page rq s) = out_calls (dispatch model page rq s)"
  by (simp_all add: handle_request_def add_header_def Let_def)

text \<open>
  A truthy message that is not a string, on an empty transcript: the concatenation
  raises inside the \<open>try\<close>, so the answer is status 500 with the description of the
  \<open>TypeError\<close>, and the hosted model is not called.
\<close>

lemma chat_message_not_string:
  assumes "json request = Inr (JObject d)" and "truthy (dict_get d ''message'')"
      and "\<forall>s. dict_get d ''message'' \<noteq> JString s" and "transcript session = []"
  shows "chat (Some m) request session =
     \<lparr>out_response = with_status (jsonify [(''error'',
          ''can only concatenate str (not '' @ [CHR 0x22] @
          type_name (dict_get d ''message'') @ [CHR 0x22] @ '') to str'')]) 500,
      out_session = session, out_calls = []\<rparr>"
proof -
  have "final_message [] (dict_get d ''message'') =
      Inl (''can only concatenate str (not '' @ [CHR 0x22] @
          type_name (dict_get d ''message'') @ [CHR 0x22] @ '') to str'')"
    using assms(3) by (cases "dict_get d ''message''") (simp_all add: final_message_def str_add_def)
  with assms(4) show ?thesis
    by (simp add: chat_accepted [OF assms(1,2)] chat_exchange_unfold)
qed

lemma chat_message_not_string_example:
  "truthy (dict_get [(''message'', JInt 5)] ''message'') \<and>
   chat (Some (\<lambda>h x. Inr ''Hello'')) \<lparr>json = Inr (JObject [(''message'', JInt 5)])\<rparr> Map.empty =
     \<lparr>out_response = with_status (jsonify [(''error'',
          ''can only concatenate str (not '' @ [CHR 0x22] @ ''int'' @ [CHR 0x22] @
          '') to str'')]) 500,
      out_session = Map.empty, out_calls = []\<rparr>"
  using chat_message_not_string [of "\<lparr>json = Inr (JObject [(''message'', JInt 5)])\<rparr>"
      "[(''message'', JInt 5)]" Map.empty "\<lambda>h x. Inr ''Hello''"]
  by (simp add: dict_get_def transcript_def session_get_def)

subsection \<open>Well-formed transcripts\<close>

text \<open>
  The application only ever stores turns with role \<open>user\<close> or \<open>model\<close>, and on such
  turns the conversion of \<open>chat\<close> keeps the role.
\<close>

lemma format_message_role_tagged:
  "turn_role t = ''user'' \<or> turn_role t = ''model'' \<Longrightarrow> format_message t = role_tagged t"
  by (auto simp: format_message_def role_tagged_def)

lemma map_format_message_well_formed:
  "well_formed h \<Longrightarrow> map format_message h = map role_tagged h"
  by (induction h) (simp_all add: well_formed_def format_message_role_tagged)

lemma well_formed_chat:
  assumes "well_formed (transcript session)"
  shows "well_formed (transcript (out_session (chat model request session)))"
proof (cases rule: chat_cases [where model=model and request=request])
  case unconfigured
  with assms show ?thesis by (simp add: chat_def)
next
  case (no_json m f)
  with assms show ?thesis by (simp add: chat_no_json)
next
  case (no_object m v)
  with assms show ?thesis by (simp add: chat_no_object)
next
  case (no_message m d)
  with assms show ?thesis by (simp add: chat_rejected)
next
  case (message m d)
  with assms show ?thesis
    by (simp add: chat_accepted chat_exchange_unfold transcript_def session_get_def
        well_formed_def split: sum.split)
qed

lemma well_formed_handle_request:
  "well_formed (transcript session) \<Longrightarrow>
   well_formed (transcript (out_session (handle_request model page rq session)))"
  using well_formed_chat [of session model]
  by (cases rq)
     (auto simp: handle_request_def dispatch_def index_def clear_chat_def transcript_def
        session_get_def well_formed_def Let_def)

lemma well_formed_session_after:
  "well_formed (transcript s) \<Longrightarrow> well_formed (transcript (session_after page s steps))"
proof (induction steps arbitrary: s)
  case Nil
  then show ?case by simp
next
  case (Cons st steps)
  obtain model rq where st: "st = (model, rq)" by (cases st)
  from Cons.prems have "well_formed (transcript (out_session (handle_request model page rq s)))"
    by (rule well_formed_handle_request)
  then show ?case
    using Cons.IH by (simp add: st)
qed

text \<open>
  Every session the application reaches from a fresh one, by whatever requests, holds a
  well-formed transcript.
\<close>

lemma well_formed_reachable:
  "well_formed (transcript (session_after page Map.empty steps))"
  by (rule well_formed_session_after) (simp add: well_formed_def transcript_def session_get_def)

subsection \<open>Transcripts of a run\<close>

text \<open>
  A chat request answered with status 200 is one that passed both guards and whose
  message the hosted model replied to; every other chat request leaves the session as it
  was.
\<close>

lemma status_chat_200:
  assumes "status (out_response (chat model request session)) = 200"
  shows "\<exists>m d x t. model = Some m \<and> json request = Inr (JObject d) \<and>
    truthy (dict_get d ''message'') \<and>
    final_message (transcript session) (dict_get d ''message'') = Inr x \<and>
    m (map format_message (transcript session)) x = Inr t \<and>
    chat model request session =
      \<lparr>out_response = jsonify [(''response'', t)],
       out_session = session(''chat_history'' \<mapsto> transcript session @
         [\<lparr>turn_role = ''user'', turn_text = dict_get d ''message''\<rparr>,
          \<lparr>turn_role = ''model'', turn_text = JString t\<rparr>]),
       out_calls = [(map format_message (transcript session), x)]\<rparr>"
proof (cases rule: chat_cases [where model=model and request=request])
  case unconfigured
  with assms show ?thesis by (simp add: chat_def jsonify_def with_status_def)
next
  case (no_json m f)
  with assms show ?thesis by (cases f) (simp_all add: chat_no_json http_exception_def)
next
  case (no_object m v)
  with assms show ?thesis by (simp add: chat_no_object internal_server_error_def)
next
  case (no_message m d)
  with assms show ?thesis by (simp add: chat_rejected jsonify_def with_status_def)
next
  case (message m d)
  with assms show ?thesis
    by (auto simp: chat_accepted chat_exchange_unfold jsonify_def with_status_def
        split: sum.splits)
qed

lemma transcript_chat_unchanged:
  assumes "status (out_response (chat model request session)) \<noteq> 200"
  shows "out_session (chat model request session) = session"
proof (cases rule: chat_cases [where model=model and request=request])
  case unconfigured
  then show ?thesis by (simp add: chat_def)
next
  case (no_json m f)
  then show ?thesis by (simp add: chat_no_json)
next
  case (no_object m v)
  then show ?thesis by (simp add: chat_no_object)
next
  case (no_message m d)
  then show ?thesis by (simp add: chat_rejected)
next
  case (message m d)
  with assms show ?thesis
    by (auto simp: chat_accepted chat_exchange_unfold jsonify_def split: sum.splits)
qed

lemma transcript_chat:
  "transcript (out_session (chat model r s)) =
     transcript s @ exchanged ((model, POST_chat r), handle_request model page (POST_chat r) s)"
proof (cases "status (out_response (chat model r s)) = 200")
  case True
  from status_chat_200 [OF True] obtain m d x t where
    "json r = Inr (JObject d)"
    "chat model r s =
      \<lparr>out_response = jsonify [(''response'', t)],
       out_session = s(''chat_history'' \<mapsto> transcript s @
         [\<lparr>turn_role = ''user'', turn_text = dict_get d ''message''\<rparr>,
          \<lparr>turn_role = ''model'', turn_text = JString t\<rparr>]),
       out_calls = [(map format_message (transcript s), x)]\<rparr>"
    by blast
  then show ?thesis
    by (simp add: exchanged_def successful_def request_message_def reply_text_def
        handle_request_fields dispatch_def jsonify_def transcript_def session_get_def)
next
  case False
  with transcript_chat_unchanged [OF False] show ?thesis
    by (simp add: exchanged_def successful_def handle_request_fields dispatch_def)
qed

lemma transcript_handle_request:
  assumes "rq \<noteq> POST_clear"
  shows "transcript (out_session (handle_request model page rq s)) =
     transcript s @ exchanged ((model, rq), handle_request model page rq s)"
proof (cases rq)
  case GET_index
  then show ?thesis
    by (simp add: handle_request_fields dispatch_def index_def exchanged_def successful_def
        transcript_def session_get_def)
next
  case (POST_chat r)
  then show ?thesis
    using transcript_chat [of model r s page]
    by (simp add: handle_request_fields dispatch_def)
next
  case POST_clear
  with assms show ?thesis by simp
qed

lemma transcript_session_after:
  assumes "POST_clear \<notin> snd ` set steps"
  shows "transcript (session_after page s steps) =
     transcript s @ concat (map exchanged (zip steps (serve page s steps)))"
  using assms
proof (induction steps arbitrary: s)
  case Nil
  then show ?case by simp
next
  case (Cons st steps)
  obtain model rq where st: "st = (model, rq)" by (cases st)
  from Cons.prems st have rq: "rq \<noteq> POST_clear" and rest: "POST_clear \<notin> snd ` set steps"
    by auto
  show ?case
    using Cons.IH [OF rest, of "out_session (handle_request model page rq s)"]
      transcript_handle_request [OF rq, of model page s]
    by (simp add: st)
qed

lemma length_concat_exchanged:
  "length (concat (map exchanged xs)) = 2 * length (filter successful xs)"
  by (induction xs) (simp_all add: exchanged_def)

lemma roles_concat_exchanged:
  "map turn_role (concat (map exchanged xs)) =
     concat (replicate (length (filter successful xs)) [''user'', ''model''])"
  by (induction xs) (simp_all add: exchanged_def)

subsection \<open>Successful exchanges\<close>

text \<open>
  C1.  Take a session whose transcript is empty and serve it any sequence of \<open>GET /\<close>
  and \<open>POST /chat\<close> requests.  If \<open>N\<close> of the chat requests were successful, the stored
  transcript afterwards is the user turn and the model turn of each successful exchange,
  in the order of the calls: it has exactly \<open>2N\<close> turns and its roles alternate
  \<open>user\<close>, \<open>model\<close>.
\<close>

theorem transcript_after_exchanges:
  assumes "transcript s = []" and "POST_clear \<notin> snd ` set steps"
  shows "transcript (session_after page s steps) =
           concat (map exchanged (zip steps (serve page s steps))) \<and>
         length (transcript (session_after page s steps)) =
           2 * length (filter successful (zip steps (serve page s steps))) \<and>
         map turn_role (transcript (session_after page s steps)) =
           concat (replicate (length (filter successful (zip steps (serve page s steps))))
             [''user'', ''model''])"
  using transcript_session_after [OF assms(2), of page s] assms(1)
  by (simp add: length_concat_exchanged roles_concat_exchanged)

text \<open>
  A run with a page load, a successful exchange, a request without a JSON body, an
  exchange on which the hosted model fails and a second successful one: two successes,
  four turns.
\<close>

theorem transcript_after_exchanges_witness:
  "transcript Map.empty = [] \<and>
   POST_clear \<notin> snd ` set
     [(Some (\<lambda>h x. Inr ''Hello''), GET_index),
      (Some (\<lambda>h x. Inr ''Hello''),
         POST_chat \<lparr>json = Inr (JObject [(''message'', JString ''Hi'')])\<rparr>),
      (Some (\<lambda>h x. Inr ''Hello''), POST_chat \<lparr>json = Inl Unsupported_media_type\<rparr>),
      (Some (\<lambda>h x. Inl ''quota exceeded''),
         POST_chat \<lparr>json = Inr (JObject [(''message'', JString ''Kyoto'')])\<rparr>),
      (Some (\<lambda>h x. Inr ''Sure''),
         POST_chat \<lparr>json = Inr (JObject [(''message'', JString ''Kyoto'')])\<rparr>)] \<and>
   transcript (session_after ''page'' Map.empty
     [(Some (\<lambda>h x. Inr ''Hello''), GET_index),
      (Some (\<lambda>h x. Inr ''Hello''),
         POST_chat \<lparr>json = Inr (JObject [(''message'', JString ''Hi'')])\<rparr>),
      (Some (\<lambda>h x. Inr ''Hello''), POST_chat \<lparr>json = Inl Unsupported_media_type\<rparr>),
      (Some (\<lambda>h x. Inl ''quota exceeded''),
         POST_chat \<lparr>json = Inr (JObject [(''message'', JString ''Kyoto'')])\<rparr>),
      (Some (\<lambda>h x. Inr ''Sure''),
         POST_chat \<lparr>json = Inr (JObject [(''message'', JString ''Kyoto'')])\<rparr>)]) =
     [\<lparr>turn_role = ''user'', turn_text = JString ''Hi''\<rparr>,
      \<lparr>turn_role = ''model'', turn_text = JString ''Hello''\<rparr>,
      \<lparr>turn_role = ''user'', turn_text = JString ''Kyoto''\<rparr>,
      \<lparr>turn_role = ''model'', turn_text = JString ''Sure''\<rparr>] \<and>
   length (filter successful (zip
     [(Some (\<lambda>h x. Inr ''Hello''), GET_index),
      (Some (\<lambda>h x. Inr ''Hello''),
         POST_chat \<lparr>json = Inr (JObject [(''message'', JString ''Hi'')])\<rparr>),
      (Some (\<lambda>h x. Inr ''Hello''), POST_chat \<lparr>json = Inl Unsupported_media_type\<rparr>),
      (Some (\<lambda>h x. Inl ''quota exceeded''),
         POST_chat \<lparr>json = Inr (JObject [(''message'', JString ''Kyoto'')])\<rparr>),
      (Some (\<lambda>h x. Inr ''Sure''),
         POST_chat \<lparr>json = Inr (JObject [(''message'', JString ''Kyoto'')])\<rparr>)]
     (serve ''page'' Map.empty
     [(Some (\<lambda>h x. Inr ''Hello''), GET_index),
      (Some (\<lambda>h x. Inr ''Hello''),
         POST_chat \<lparr>json = Inr (JObject [(''message'', JString ''Hi'')])\<rparr>),
      (Some (\<lambda>h x. Inr ''Hello''), POST_chat \<lparr>json = Inl Unsupported_media_type\<rparr>),
      (Some (\<lambda>h x. Inl ''quota exceeded''),
         POST_chat \<lparr>json = Inr (JObject [(''message'', JString ''Kyoto'')])\<rparr>),
      (Some (\<lambda>h x. Inr ''Sure''),
         POST_chat \<lparr>json = Inr (JObject [(''message'', JString ''Kyoto'')])\<rparr>)]))) = 2"
  using transcript_after_exchanges [of Map.empty
     "[(Some (\<lambda>h x. Inr ''Hello''), GET_index),
      (Some (\<lambda>h x. Inr ''Hello''),
         POST_chat \<lparr>json = Inr (JObject [(''message'', JString ''Hi'')])\<rparr>),
      (Some (\<lambda>h x. Inr ''Hello''), POST_chat \<lparr>json = Inl Unsupported_media_type\<rparr>),
      (Some (\<lambda>h x. Inl ''quota exceeded''),
         POST_chat \<lparr>json = Inr (JObject [(''message'', JString ''Kyoto'')])\<rparr>),
      (Some (\<lambda>h x. Inr ''Sure''),
         POST_chat \<lparr>json = Inr (JObject [(''message'', JString ''Kyoto'')])\<rparr>)]"
     "''page''"]
  by (simp add: handle_request_fields dispatch_def index_def chat_def chat_exchange_unfold Let_def
      final_message_def str_add_def dict_get_def http_exception_def
      jsonify_def with_status_def transcript_def session_get_def successful_def exchanged_def
      request_message_def reply_text_def)

subsection \<open>Failure of the hosted model\<close>

text \<open>
  C2.  If the call that a chat request makes to the hosted model raises an exception
  with description \<open>e\<close>, the response has status 500 and the body
  \<open>{"error": e}\<close>, and the session, so also the stored transcript, is what it was
  before the request: no user turn is appended.
\<close>

theorem chat_gateway_failure:
  assumes "(h, x) \<in> set (out_calls (chat (Some m) request session))"
      and "m h x = Inl e"
  shows "status (out_response (chat (Some m) request session)) = 500 \<and>
         body (out_response (chat (Some m) request session)) = Json [(''error'', e)] \<and>
         out_session (chat (Some m) request session) = session \<and>
         transcript (out_session (chat (Some m) request session)) = transcript session"
proof -
  from chat_call_cases [OF assms(1)]
  obtain d where d: "json request = Inr (JObject d)" "truthy (dict_get d ''message'')"
    and x: "final_message (transcript session) (dict_get d ''message'') = Inr x"
    and h: "h = map format_message (transcript session)"
    by auto
  from assms(2) h x show ?thesis
    by (simp add: chat_accepted [OF d] chat_exchange_unfold jsonify_def with_status_def)
qed

theorem chat_gateway_failure_witness:
  "([], JString (SYSTEM_PROMPT @ ''\<newline>\<newline>User: '' @ ''Hi'')) \<in>
     set (out_calls (chat (Some (\<lambda>h x. Inl ''quota exceeded''))
            \<lparr>json = Inr (JObject [(''message'', JString ''Hi'')])\<rparr> Map.empty)) \<and>
   status (out_response (chat (Some (\<lambda>h x. Inl ''quota exceeded''))
            \<lparr>json = Inr (JObject [(''message'', JString ''Hi'')])\<rparr> Map.empty)) = 500 \<and>
   body (out_response (chat (Some (\<lambda>h x. Inl ''quota exceeded''))
            \<lparr>json = Inr (JObject [(''message'', JString ''Hi'')])\<rparr> Map.empty)) =
     Json [(''error'', ''quota exceeded'')] \<and>
   out_session (chat (Some (\<lambda>h x. Inl ''quota exceeded''))
            \<lparr>json = Inr (JObject [(''message'', JString ''Hi'')])\<rparr> Map.empty) = Map.empty"
  using chat_gateway_failure [of "[]" "JString (SYSTEM_PROMPT @ ''\<newline>\<newline>User: '' @ ''Hi'')"
      "\<lambda>h x. Inl ''quota exceeded''"
      "\<lparr>json = Inr (JObject [(''message'', JString ''Hi'')])\<rparr>" Map.empty
      "''quota exceeded''"]
  by (simp add: chat_def chat_exchange_unfold final_message_def str_add_def dict_get_def
      transcript_def session_get_def Let_def)

subsection \<open>Missing message\<close>




subsection \<open>The system prompt\<close>

text \<open>
  C4.  Whenever a chat request sends a message \<open>x\<close> to the hosted model, \<open>x\<close> is the
  user message with the system prompt and \<open>User:\<close> prepended if and only if the
  stored transcript was empty before the request, and \<open>x\<close> is the bare user message
  if and only if it was not.  In particular, in a session that results from a successful
  exchange the message sent is the bare user message: the prefix is not applied again.
\<close>

theorem system_prompt_prefix_iff:
  assumes "(h, x) \<in> set (out_calls (chat model request session))"
      and "json request = Inr (JObject d)"
  shows "((\<exists>s. dict_get d ''message'' = JString s \<and>
              x = JString (SYSTEM_PROMPT @ ''\<newline>\<newline>User: '' @ s))
            \<longleftrightarrow> transcript session = []) \<and>
         (x = dict_get d ''message'' \<longleftrightarrow> transcript session \<noteq> []) \<and>
         (\<forall>model0 request0 session0.
            session = out_session (chat model0 request0 session0) \<and>
            status (out_response (chat model0 request0 session0)) = 200 \<longrightarrow>
            x = dict_get d ''message'')"
proof -
  from chat_call_cases [OF assms(1)] assms(2)
  have x: "final_message (transcript session) (dict_get d ''message'') = Inr x"
    by auto
  have second: "(x = dict_get d ''message'' \<longleftrightarrow> transcript session \<noteq> [])"
    using final_message_same [OF x] .
  have first: "((\<exists>s. dict_get d ''message'' = JString s \<and>
              x = JString (SYSTEM_PROMPT @ ''\<newline>\<newline>User: '' @ s))
            \<longleftrightarrow> transcript session = [])"
  proof
    assume "\<exists>s. dict_get d ''message'' = JString s \<and>
              x = JString (SYSTEM_PROMPT @ ''\<newline>\<newline>User: '' @ s)"
    then have "x \<noteq> dict_get d ''message''"
      using prefixed_neq by auto
    with second show "transcript session = []" by simp
  next
    assume "transcript session = []"
    with x final_message_empty [of "dict_get d ''message''" x]
    show "\<exists>s. dict_get d ''message'' = JString s \<and>
              x = JString (SYSTEM_PROMPT @ ''\<newline>\<newline>User: '' @ s)"
      by simp
  qed
  have "transcript (out_session (chat model0 request0 session0)) \<noteq> []"
    if "status (out_response (chat model0 request0 session0)) = 200"
    for model0 request0 session0
    using status_chat_200 [OF that]
    by (auto simp: transcript_def session_get_def)
  with second have "\<forall>model0 request0 session0.
            session = out_session (chat model0 request0 session0) \<and>
            status (out_response (chat model0 request0 session0)) = 200 \<longrightarrow>
            x = dict_get d ''message''"
    by auto
  with first second show ?thesis by blast
qed

text \<open>
  A first request, which sends the prefixed message, and a second request in the session
  it leaves, which sends the bare one.
\<close>

theorem system_prompt_prefix_iff_witness:
  "([], JString (SYSTEM_PROMPT @ ''\<newline>\<newline>User: '' @ ''Hi'')) \<in>
     set (out_calls (chat (Some (\<lambda>h x. Inr ''Hello''))
       \<lparr>json = Inr (JObject [(''message'', JString ''Hi'')])\<rparr> Map.empty)) \<and>
   transcript Map.empty = [] \<and>
   status (out_response (chat (Some (\<lambda>h x. Inr ''Hello''))
       \<lparr>json = Inr (JObject [(''message'', JString ''Hi'')])\<rparr> Map.empty)) = 200 \<and>
   out_session (chat (Some (\<lambda>h x. Inr ''Hello''))
       \<lparr>json = Inr (JObject [(''message'', JString ''Hi'')])\<rparr> Map.empty) =
     [''chat_history'' \<mapsto>
       [\<lparr>turn_role = ''user'', turn_text = JString ''Hi''\<rparr>,
        \<lparr>turn_role = ''model'', turn_text = JString ''Hello''\<rparr>]] \<and>
   ([\<lparr>content_role = ''user'', content_parts = [JString ''Hi'']\<rparr>,
     \<lparr>content_role = ''model'', content_parts = [JString ''Hello'']\<rparr>], JString ''Kyoto'') \<in>
     set (out_calls (chat (Some (\<lambda>h x. Inr ''Sure''))
       \<lparr>json = Inr (JObject [(''message'', JString ''Kyoto'')])\<rparr>
       [''chat_history'' \<mapsto>
         [\<lparr>turn_role = ''user'', turn_text = JString ''Hi''\<rparr>,
          \<lparr>turn_role = ''model'', turn_text = JString ''Hello''\<rparr>]])) \<and>
   ''Kyoto'' \<noteq> SYSTEM_PROMPT @ ''\<newline>\<newline>User: '' @ ''Kyoto''"
  using system_prompt_prefix_iff [of
      "[\<lparr>content_role = ''user'', content_parts = [JString ''Hi'']\<rparr>,
        \<lparr>content_role = ''model'', content_parts = [JString ''Hello'']\<rparr>]" "JString ''Kyoto''"
      "Some (\<lambda>h x. Inr ''Sure'')"
      "\<lparr>json = Inr (JObject [(''message'', JString ''Kyoto'')])\<rparr>"
      "[''chat_history'' \<mapsto>
         [\<lparr>turn_role = ''user'', turn_text = JString ''Hi''\<rparr>,
          \<lparr>turn_role = ''model'', turn_text = JString ''Hello''\<rparr>]]"
      "[(''message'', JString ''Kyoto'')]"]
  by (simp add: chat_def chat_exchange_unfold final_message_def str_add_def dict_get_def
      transcript_def session_get_def format_message_def jsonify_def Let_def)

subsection \<open>Missing configuration\<close>

text \<open>
  C5.  When \<open>GEMINI_API_KEY\<close> is not configured (the model handle is \<open>None\<close>), every
  chat request is answered with status 500 and the fixed message, whatever the request
  body and the session are: the check comes before the message is validated and before
  the session is read, so a request without a message gets the 500 and not the 400, the
  session is left as it was and the hosted model is not called.
\<close>

theorem chat_unconfigured:
  "status (out_response (chat None request session)) = 500 \<and>
   status (out_response (chat None request session)) \<noteq> 400 \<and>
   body (out_response (chat None request session)) =
     Json [(''error'', ''API Key is missing. Please configure GEMINI_API_KEY in .env file.'')] \<and>
   out_session (chat None request session) = session \<and>
   out_calls (chat None request session) = []"
  by (simp add: chat_def jsonify_def with_status_def)

subsection \<open>The first exchange\<close>

text \<open>
  C6.  On a session with an empty transcript, a chat request with a non-empty message
  to which the hosted model replies is answered with status 200 and the body
  \<open>{"response": reply}\<close>, and the stored transcript becomes exactly the user turn
  with the raw message followed by the model turn with the reply.  The text sent to the
  hosted model is the message with the system prompt prepended, which differs from the
  stored text.
\<close>

theorem chat_first_exchange:
  assumes "transcript session = []"
      and "json request = Inr (JObject d)"
      and "dict_get d ''message'' = JString msg" and "msg \<noteq> []"
      and "m [] (JString (SYSTEM_PROMPT @ ''\<newline>\<newline>User: '' @ msg)) = Inr reply"
  shows "status (out_response (chat (Some m) request session)) = 200 \<and>
         body (out_response (chat (Some m) request session)) = Json [(''response'', reply)] \<and>
         out_session (chat (Some m) request session) ''chat_history'' =
           Some [\<lparr>turn_role = ''user'', turn_text = JString msg\<rparr>,
                 \<lparr>turn_role = ''model'', turn_text = JString reply\<rparr>] \<and>
         out_calls (chat (Some m) request session) =
           [([], JString (SYSTEM_PROMPT @ ''\<newline>\<newline>User: '' @ msg))] \<and>
         JString msg \<noteq> JString (SYSTEM_PROMPT @ ''\<newline>\<newline>User: '' @ msg)"
proof -
  have "chat (Some m) request session = chat_exchange m (JString msg) session"
    using chat_accepted [OF assms(2), of m session] assms(3,4) by simp
  with assms(1,5) prefixed_neq [of msg] show ?thesis
    by (simp add: chat_exchange_unfold final_message_empty_string jsonify_def)
qed

theorem chat_first_exchange_witness:
  "transcript Map.empty = [] \<and>
   dict_get [(''message'', JString ''Plan a 3-day trip to Kyoto'')] ''message'' =
     JString ''Plan a 3-day trip to Kyoto'' \<and>
   status (out_response (chat (Some (\<lambda>h x. Inr ''Hello''))
     \<lparr>json = Inr (JObject [(''message'', JString ''Plan a 3-day trip to Kyoto'')])\<rparr>
     Map.empty)) = 200 \<and>
   body (out_response (chat (Some (\<lambda>h x. Inr ''Hello''))
     \<lparr>json = Inr (JObject [(''message'', JString ''Plan a 3-day trip to Kyoto'')])\<rparr>
     Map.empty)) = Json [(''response'', ''Hello'')] \<and>
   out_session (chat (Some (\<lambda>h x. Inr ''Hello''))
     \<lparr>json = Inr (JObject [(''message'', JString ''Plan a 3-day trip to Kyoto'')])\<rparr>
     Map.empty) ''chat_history'' =
     Some [\<lparr>turn_role = ''user'', turn_text = JString ''Plan a 3-day trip to Kyoto''\<rparr>,
           \<lparr>turn_role = ''model'', turn_text = JString ''Hello''\<rparr>]"
  using chat_first_exchange [of Map.empty
      "\<lparr>json = Inr (JObject [(''message'', JString ''Plan a 3-day trip to Kyoto'')])\<rparr>"
      "[(''message'', JString ''Plan a 3-day trip to Kyoto'')]"
      "''Plan a 3-day trip to Kyoto''" "\<lambda>h x. Inr ''Hello''" "''Hello''"]
  by (simp add: transcript_def session_get_def dict_get_def)

subsection \<open>What the hosted model receives\<close>

text \<open>
  C7.  On every session that the application reaches from a fresh one, by whatever
  requests, a chat request that invokes the hosted model invokes it once, with the whole
  stored transcript in its stored order, every turn as the message of its role and text,
  followed by the new user message, which is prefixed with the system prompt when the
  transcript is empty and bare otherwise.  A request with a non-empty string as message,
  on a configured model, does invoke it.
\<close>

theorem chat_gateway_arguments:
  "(\<forall>h x. (h, x) \<in> set (out_calls (chat model request (session_after page Map.empty steps))) \<longrightarrow>
      h = map role_tagged (transcript (session_after page Map.empty steps)) \<and>
      (if transcript (session_after page Map.empty steps) = []
       then \<exists>s. request_message (POST_chat request) = JString s \<and>
              x = JString (SYSTEM_PROMPT @ ''\<newline>\<newline>User: '' @ s)
       else x = request_message (POST_chat request)) \<and>
      out_calls (chat model request (session_after page Map.empty steps)) = [(h, x)]) \<and>
   (\<forall>m d s. model = Some m \<and> json request = Inr (JObject d) \<and>
        dict_get d ''message'' = JString s \<and> s \<noteq> [] \<longrightarrow>
      out_calls (chat model request (session_after page Map.empty steps)) =
        [(map role_tagged (transcript (session_after page Map.empty steps)),
          JString (if transcript (session_after page Map.empty steps) = []
                   then SYSTEM_PROMPT @ ''\<newline>\<newline>User: '' @ s else s))])"
proof -
  define S where "S = session_after page Map.empty steps"
  have fmt: "map format_message (transcript S) = map role_tagged (transcript S)"
    unfolding S_def
    by (rule map_format_message_well_formed, rule well_formed_session_after)
       (simp add: well_formed_def transcript_def session_get_def)
  have made: "h = map role_tagged (transcript S) \<and>
      (if transcript S = []
       then \<exists>s. request_message (POST_chat request) = JString s \<and>
              x = JString (SYSTEM_PROMPT @ ''\<newline>\<newline>User: '' @ s)
       else x = request_message (POST_chat request)) \<and>
      out_calls (chat model request S) = [(h, x)]"
    if "(h, x) \<in> set (out_calls (chat model request S))" for h x
  proof -
    from chat_call_cases [OF that] obtain d where
      d: "json request = Inr (JObject d)"
      and x: "final_message (transcript S) (dict_get d ''message'') = Inr x"
      and h: "h = map format_message (transcript S)"
      and c: "out_calls (chat model request S) = [(h, x)]"
      by auto
    from d have v: "request_message (POST_chat request) = dict_get d ''message''"
      by (simp add: request_message_def)
    show ?thesis
    proof (cases "transcript S = []")
      case True
      with x final_message_empty [of "dict_get d ''message''" x] h c fmt v
      show ?thesis by simp
    next
      case False
      with x h c fmt v show ?thesis by (simp add: final_message_nonempty)
    qed
  qed
  have sent: "out_calls (chat model request S) =
        [(map role_tagged (transcript S),
          JString (if transcript S = []
                   then SYSTEM_PROMPT @ ''\<newline>\<newline>User: '' @ s else s))]"
    if "model = Some m" "json request = Inr (JObject d)"
       "dict_get d ''message'' = JString s" "s \<noteq> []" for m d s
  proof -
    have "chat model request S = chat_exchange m (JString s) S"
      using chat_accepted [OF that(2), of m S] that(1,3,4) by simp
    then show ?thesis
      using fmt
      by (simp add: chat_exchange_unfold final_message_def str_add_def split: sum.split)
  qed
  from made sent show ?thesis unfolding S_def by blast
qed

text \<open>
  The second request of a session: the hosted model receives the two turns of the first
  exchange and the bare message.
\<close>

theorem chat_gateway_arguments_witness:
  "transcript (session_after ''page'' Map.empty
       [(Some (\<lambda>h x. Inr ''Hello''),
         POST_chat \<lparr>json = Inr (JObject [(''message'', JString ''Hi'')])\<rparr>)]) =
     [\<lparr>turn_role = ''user'', turn_text = JString ''Hi''\<rparr>,
      \<lparr>turn_role = ''model'', turn_text = JString ''Hello''\<rparr>] \<and>
   out_calls (chat (Some (\<lambda>h x. Inr ''Sure''))
       \<lparr>json = Inr (JObject [(''message'', JString ''Kyoto'')])\<rparr>
       (session_after ''page'' Map.empty
         [(Some (\<lambda>h x. Inr ''Hello''),
           POST_chat \<lparr>json = Inr (JObject [(''message'', JString ''Hi'')])\<rparr>)])) =
     [([\<lparr>content_role = ''user'', content_parts = [JString ''Hi'']\<rparr>,
        \<lparr>content_role = ''model'', content_parts = [JString ''Hello'']\<rparr>],
       JString ''Kyoto'')]"
  using chat_gateway_arguments [of "Some (\<lambda>h x. Inr ''Sure'')"
       "\<lparr>json = Inr (JObject [(''message'', JString ''Kyoto'')])\<rparr>" "''page''"
       "[(Some (\<lambda>h x. Inr ''Hello''),
           POST_chat \<lparr>json = Inr (JObject [(''message'', JString ''Hi'')])\<rparr>)]"]
  by (simp add: handle_request_fields dispatch_def chat_def chat_exchange_unfold
      final_message_def str_add_def dict_get_def jsonify_def transcript_def session_get_def
      role_tagged_def format_message_def request_message_def Let_def)

subsection \<open>Clearing the session\<close>

text \<open>
  C8.  \<open>POST /clear\<close> always answers with status 200 and the body
  \<open>{"status": "success"}\<close>, whatever the session holds, and removes the transcript
  from the session, so that the transcript is empty afterwards.  Clearing twice is the
  same as clearing once: the second clear gives the same response and the same session.
\<close>

theorem clear_chat_idempotent:
  "status (out_response (clear_chat session)) = 200 \<and>
   body (out_response (clear_chat session)) = Json [(''status'', ''success'')] \<and>
   out_response (handle_request model page POST_clear session) =
     add_header (jsonify [(''status'', ''success'')]) \<and>
   out_session (handle_request model page POST_clear session) =
     session(''chat_history'' := None) \<and>
   out_session (clear_chat session) ''chat_history'' = None \<and>
   transcript (out_session (clear_chat session)) = [] \<and>
   clear_chat (out_session (clear_chat session)) = clear_chat session"
  by (simp add: clear_chat_def jsonify_def transcript_def session_get_def
      handle_request_def dispatch_def)

subsection \<open>Cache headers\<close>

text \<open>
  C9.  The response to every request, to \<open>GET /\<close>, \<open>POST /chat\<close> or \<open>POST /clear\<close>,
  successful or not, carries the three headers that disable caching:
  \<open>Cache-Control\<close> with no-store, no-cache and must-revalidate, \<open>Pragma: no-cache\<close>
  and \<open>Expires: -1\<close>.
\<close>

theorem responses_not_cacheable:
  "headers (out_response (handle_request model page rq session)) ''Cache-Control'' =
     Some ''no-store, no-cache, must-revalidate, post-check=0, pre-check=0, max-age=0'' \<and>
   headers (out_response (handle_request model page rq session)) ''Pragma'' =
     Some ''no-cache'' \<and>
   headers (out_response (handle_request model page rq session)) ''Expires'' = Some ''-1''"
  by (simp add: handle_request_def add_header_def Let_def)

subsection \<open>A session without a transcript\<close>

text \<open>
  C10.  On a session in which the key \<open>chat_history\<close> is absent, a chat request
  behaves as on the session with the empty transcript, which is the session that
  \<open>GET /\<close> would have made of it: the transcript loaded is empty, the response and the
  call to the hosted model are the same, any message sent goes with an empty history and
  with the system prompt prepended, and when the hosted model replies the request
  succeeds and the transcript is created with the two new turns.
\<close>

theorem chat_absent_transcript:
  assumes "session ''chat_history'' = None"
  shows "transcript session = [] \<and>
         out_response (chat model request session) =
           out_response (chat model request (session(''chat_history'' \<mapsto> []))) \<and>
         out_calls (chat model request session) =
           out_calls (chat model request (session(''chat_history'' \<mapsto> []))) \<and>
         transcript (out_session (chat model request session)) =
           transcript (out_session (chat model request (session(''chat_history'' \<mapsto> [])))) \<and>
         out_session (index page session) = session(''chat_history'' \<mapsto> []) \<and>
         (\<forall>h x. (h, x) \<in> set (out_calls (chat model request session)) \<longrightarrow>
            h = [] \<and>
            (\<exists>s. request_message (POST_chat request) = JString s \<and>
               x = JString (SYSTEM_PROMPT @ ''\<newline>\<newline>User: '' @ s))) \<and>
         (\<forall>m d msg reply. model = Some m \<and> json request = Inr (JObject d) \<and>
              dict_get d ''message'' = JString msg \<and> msg \<noteq> [] \<and>
              m [] (JString (SYSTEM_PROMPT @ ''\<newline>\<newline>User: '' @ msg)) = Inr reply \<longrightarrow>
            status (out_response (chat model request session)) = 200 \<and>
            out_session (chat model request session) =
              session(''chat_history'' \<mapsto>
                [\<lparr>turn_role = ''user'', turn_text = JString msg\<rparr>,
                 \<lparr>turn_role = ''model'', turn_text = JString reply\<rparr>]))"
proof -
  have t: "transcript session = []"
    using assms by (simp add: transcript_def session_get_def)
  have t': "transcript (session(''chat_history'' \<mapsto> [])) = []"
    by (simp add: transcript_def session_get_def)
  have same: "out_response (chat model request session) =
           out_response (chat model request (session(''chat_history'' \<mapsto> []))) \<and>
         out_calls (chat model request session) =
           out_calls (chat model request (session(''chat_history'' \<mapsto> []))) \<and>
         transcript (out_session (chat model request session)) =
           transcript (out_session (chat model request (session(''chat_history'' \<mapsto> []))))"
  proof (cases rule: chat_cases [where model=model and request=request])
    case unconfigured
    with t t' show ?thesis by (simp add: chat_def)
  next
    case (no_json m f)
    with t t' show ?thesis by (simp add: chat_no_json)
  next
    case (no_object m v)
    with t t' show ?thesis by (simp add: chat_no_object)
  next
    case (no_message m d)
    with t t' show ?thesis by (simp add: chat_rejected)
  next
    case (message m d)
    with t t' show ?thesis
      by (simp add: chat_accepted chat_exchange_unfold transcript_def session_get_def
          split: sum.split)
  qed
  have idx: "out_session (index page session) = session(''chat_history'' \<mapsto> [])"
    using assms by (simp add: index_def)
  have calls: "\<forall>h x. (h, x) \<in> set (out_calls (chat model request session)) \<longrightarrow>
            h = [] \<and>
            (\<exists>s. request_message (POST_chat request) = JString s \<and>
               x = JString (SYSTEM_PROMPT @ ''\<newline>\<newline>User: '' @ s))"
  proof (intro allI impI)
    fix h x
    assume "(h, x) \<in> set (out_calls (chat model request session))"
    from chat_call_cases [OF this] obtain d where
      d: "json request = Inr (JObject d)"
      and x: "final_message (transcript session) (dict_get d ''message'') = Inr x"
      and h: "h = map format_message (transcript session)"
      by auto
    from d have v: "request_message (POST_chat request) = dict_get d ''message''"
      by (simp add: request_message_def)
    from x t final_message_empty [of "dict_get d ''message''" x] h v
    show "h = [] \<and>
            (\<exists>s. request_message (POST_chat request) = JString s \<and>
               x = JString (SYSTEM_PROMPT @ ''\<newline>\<newline>User: '' @ s))"
      by simp
  qed
  have created: "\<forall>m d msg reply. model = Some m \<and> json request = Inr (JObject d) \<and>
              dict_get d ''message'' = JString msg \<and> msg \<noteq> [] \<and>
              m [] (JString (SYSTEM_PROMPT @ ''\<newline>\<newline>User: '' @ msg)) = Inr reply \<longrightarrow>
            status (out_response (chat model request session)) = 200 \<and>
            out_session (chat model request session) =
              session(''chat_history'' \<mapsto>
                [\<lparr>turn_role = ''user'', turn_text = JString msg\<rparr>,
                 \<lparr>turn_role = ''model'', turn_text = JString reply\<rparr>])"
  proof (intro allI impI, elim conjE)
    fix m d msg reply
    assume a: "model = Some m" "json request = Inr (JObject d)"
      "dict_get d ''message'' = JString msg" "msg \<noteq> []"
      "m [] (JString (SYSTEM_PROMPT @ ''\<newline>\<newline>User: '' @ msg)) = Inr reply"
    have "chat model request session = chat_exchange m (JString msg) session"
      using chat_accepted [OF a(2), of m session] a(1,3,4) by simp
    with t a(5) show "status (out_response (chat model request session)) = 200 \<and>
            out_session (chat model request session) =
              session(''chat_history'' \<mapsto>
                [\<lparr>turn_role = ''user'', turn_text = JString msg\<rparr>,
                 \<lparr>turn_role = ''model'', turn_text = JString reply\<rparr>])"
      by (simp add: chat_exchange_unfold final_message_empty_string jsonify_def)
  qed
  from t same idx calls created show ?thesis by blast
qed

theorem chat_absent_transcript_witness:
  "(Map.empty :: session) ''chat_history'' = None \<and>
   out_response (chat (Some (\<lambda>h x. Inr ''Hello''))
       \<lparr>json = Inr (JObject [(''message'', JString ''Hi'')])\<rparr> Map.empty) =
     out_response (chat (Some (\<lambda>h x. Inr ''Hello''))
       \<lparr>json = Inr (JObject [(''message'', JString ''Hi'')])\<rparr> [''chat_history'' \<mapsto> []]) \<and>
   ([], JString (SYSTEM_PROMPT @ ''\<newline>\<newline>User: '' @ ''Hi'')) \<in>
     set (out_calls (chat (Some (\<lambda>h x. Inr ''Hello''))
       \<lparr>json = Inr (JObject [(''message'', JString ''Hi'')])\<rparr> Map.empty)) \<and>
   status (out_response (chat (Some (\<lambda>h x. Inr ''Hello''))
       \<lparr>json = Inr (JObject [(''message'', JString ''Hi'')])\<rparr> Map.empty)) = 200 \<and>
   out_session (chat (Some (\<lambda>h x. Inr ''Hello''))
       \<lparr>json = Inr (JObject [(''message'', JString ''Hi'')])\<rparr> Map.empty) =
     [''chat_history'' \<mapsto>
       [\<lparr>turn_role = ''user'', turn_text = JString ''Hi''\<rparr>,
        \<lparr>turn_role = ''model'', turn_text = JString ''Hello''\<rparr>]]"
  using chat_absent_transcript [of Map.empty "Some (\<lambda>h x. Inr ''Hello'')"
      "\<lparr>json = Inr (JObject [(''message'', JString ''Hi'')])\<rparr>"]
  by (simp add: chat_def chat_exchange_unfold final_message_def str_add_def dict_get_def
      jsonify_def transcript_def session_get_def Let_def)

end
